theory Spec2Isabelle
  imports Main "HOL-Library.Word"
begin

section \<open>Constants and the default backoff policy (constants.go)\<close>

text \<open>
  \<open>time.Duration\<close> is a signed 64-bit count of nanoseconds; multiplication wraps as the
  machine's does. Go's \<open>int\<close> is taken at its 64-bit width and read with \<open>sint\<close>.
\<close>

type_synonym Duration = "64 word"

definition Millisecond :: Duration where
  "Millisecond = 1000000"

definition Second :: Duration where
  "Second = 1000 * Millisecond"

definition defaultConnectTimeout :: Duration where
  "defaultConnectTimeout = 10 * Second"

definition defaultHeartbeatInterval :: Duration where
  "defaultHeartbeatInterval = 30 * Second"

definition busyWait :: Duration where
  "busyWait = 100 * Millisecond"

definition messageQueueLength :: nat where
  "messageQueueLength = 100"

definition schedule :: "Duration list" where
  "schedule = [10, 50, 100, 150, 200, 250, 500, 1000, 2000]"

definition defaultReconnectAfterFunc :: "64 word \<Rightarrow> Duration" where
  "defaultReconnectAfterFunc tries =
     (if 0 \<le> sint tries \<and> sint tries < int (length schedule)
      then (schedule ! nat (sint tries)) * Millisecond
      else 5000 * Millisecond)"

section \<open>Collaborators outside the repository\<close>

subsection \<open>Errors\<close>

text \<open>
  A Go \<open>error\<close> value is one of: an \<open>errors.New\<close> text, the transport library's
  \<open>*websocket.CloseError\<close> with its close code and text, or any other error of the
  transport or the network.
\<close>

datatype error = ErrorString string | CloseError nat string | OtherError string

text \<open>
  \<open>websocket.IsCloseError(err, codes...)\<close> of the transport library: true exactly for
  a \<open>*CloseError\<close> whose code is one of \<open>codes\<close>.
\<close>

fun IsCloseError :: "error \<Rightarrow> nat list \<Rightarrow> bool" where
  "IsCloseError (CloseError code txt) codes = (code \<in> set codes)"
| "IsCloseError (ErrorString s) codes = False"
| "IsCloseError (OtherError s) codes = False"

definition CloseMessage :: nat where
  "CloseMessage = 8"

definition CloseNormalClosure :: nat where
  "CloseNormalClosure = 1000"

text \<open>
  \<open>websocket.FormatCloseMessage\<close>: the close code as two big-endian bytes, then the text.
\<close>

definition FormatCloseMessage :: "nat \<Rightarrow> string \<Rightarrow> nat list" where
  "FormatCloseMessage code txt = [code div 256 mod 256, code mod 256] @ map of_char txt"

subsection \<open>Paths and URLs\<close>

text \<open>
  \<open>path.Join\<close> and \<open>path.Clean\<close> of the Go standard library, by their documented
  rules: empty elements are ignored, the rest joined with slashes and cleaned; cleaning
  drops empty and \<open>.\<close> elements, cancels an inner \<open>..\<close> against the element before it,
  drops a \<open>..\<close> that would climb above the root of a rooted path and keeps it at the
  front of a relative one; an empty result is \<open>.\<close>.
\<close>

fun split_slash :: "string \<Rightarrow> string list" where
  "split_slash [] = [[]]"
| "split_slash (c # cs) =
     (if c = CHR ''/'' then [] # split_slash cs
      else (case split_slash cs of [] \<Rightarrow> [[c]] | s # ss \<Rightarrow> (c # s) # ss))"

fun join_slash :: "string list \<Rightarrow> string" where
  "join_slash [] = []"
| "join_slash [x] = x"
| "join_slash (x # y # ys) = x @ CHR ''/'' # join_slash (y # ys)"

definition clean_elem :: "bool \<Rightarrow> string list \<Rightarrow> string \<Rightarrow> string list" where
  "clean_elem rooted st e =
     (if e = [] \<or> e = ''.'' then st
      else if e = ''..'' then
        (if st \<noteq> [] \<and> last st \<noteq> ''..'' then butlast st
         else if rooted then st
         else st @ [''..''])
      else st @ [e])"

definition path_Clean :: "string \<Rightarrow> string" where
  "path_Clean p =
     (if p = [] then ''.''
      else let rooted = (hd p = CHR ''/'');
               st = foldl (clean_elem rooted) [] (split_slash p)
           in if rooted then CHR ''/'' # join_slash st
              else if st = [] then ''.''
              else join_slash st)"

definition path_Join :: "string list \<Rightarrow> string" where
  "path_Join elem =
     (case filter (\<lambda>e. e \<noteq> []) elem of
        [] \<Rightarrow> []
      | es \<Rightarrow> path_Clean (join_slash es))"

text \<open>
  \<open>url.URL\<close> is a struct passed by value. Its serialiser \<open>String()\<close> belongs to the
  standard library and is a parameter \<open>str\<close> of the functions that call it.
\<close>

record URL =
  Scheme :: string
  Opaque :: string
  User :: "string option"
  Host :: string
  Path :: string
  RawPath :: string
  OmitHost :: bool
  ForceQuery :: bool
  RawQuery :: string
  Fragment :: string
  RawFragment :: string

type_synonym Header = "(string \<times> string list) list"

subsection \<open>Channels\<close>

text \<open>
  A channel value is \<open>None\<close> for the nil channel of a zero struct. For a made channel,
  \<open>ch_buf\<close> holds the values sent and not yet received: the buffer of a buffered
  channel, and for an unbuffered one (\<open>ch_cap = 0\<close>) the values offered by senders
  that wait for their receiver. How long a sender waits is not modelled.
\<close>

record 'a chan =
  ch_cap :: nat
  ch_buf :: "'a list"
  ch_closed :: bool

definition make_chan :: "nat \<Rightarrow> 'a chan" where
  "make_chan n = \<lparr>ch_cap = n, ch_buf = [], ch_closed = False\<rparr>"

text \<open>
  What stops a goroutine: a panic, a wait that can never end (the nil channel), or a
  wait for another goroutine (a full queue, a select with no ready case).
\<close>

datatype stop = Panic string | BlocksForever | Blocks

fun chan_send :: "'a chan option \<Rightarrow> 'a \<Rightarrow> stop + 'a chan option" where
  "chan_send None v = Inl BlocksForever"
| "chan_send (Some ch) v =
     (if ch_closed ch then Inl (Panic ''send on closed channel'')
      else if 0 < ch_cap ch \<and> ch_cap ch \<le> length (ch_buf ch) then Inl Blocks
      else Inr (Some (ch\<lparr>ch_buf := ch_buf ch @ [v]\<rparr>)))"

fun chan_close :: "'a chan option \<Rightarrow> stop + 'a chan option" where
  "chan_close None = Inl (Panic ''close of nil channel'')"
| "chan_close (Some ch) =
     (if ch_closed ch then Inl (Panic ''close of closed channel'')
      else Inr (Some (ch\<lparr>ch_closed := True\<rparr>)))"

text \<open>
  A receive is ready when a value is pending or the channel is closed (then it yields
  the zero value \<open>z\<close>); \<open>None\<close> means not ready.
\<close>

fun chan_recv :: "'a \<Rightarrow> 'a chan option \<Rightarrow> ('a \<times> 'a chan option) option" where
  "chan_recv z None = None"
| "chan_recv z (Some ch) =
     (case ch_buf ch of
        x # xs \<Rightarrow> Some (x, Some (ch\<lparr>ch_buf := xs\<rparr>))
      | [] \<Rightarrow> if ch_closed ch then Some (z, Some ch) else None)"

text \<open>
  A \<open>select\<close> takes one of its ready cases; which one is the scheduler's choice \<open>pick\<close>.
  When the picked case is not ready the first ready one in source order stands for it.
\<close>

datatype pick = PickDone | PickClose | PickReconnect | PickSend

definition select_case :: "pick \<Rightarrow> (pick \<times> bool) list \<Rightarrow> pick option" where
  "select_case p cs =
     (if (p, True) \<in> set cs then Some p
      else (case filter snd cs of [] \<Rightarrow> None | c # _ \<Rightarrow> Some (fst c)))"

section \<open>The session (websocket.go)\<close>

type_synonym Conn = nat
type_synonym Dialer = nat

text \<open>
  The \<open>TransportHandler\<close> interface is declared outside these files. Its one method with
  a result is a field here; calls of the others are recorded as events.
\<close>

record TransportHandler =
  ReconnectAfter :: "64 word \<Rightarrow> Duration"

datatype goroutine = ConnectionManager | Writer | Reader

text \<open>
  What the session does to its collaborators, in order: calls of the dialer, the
  endpoint, the handler, the clock, standard output and the scheduler, and the writes to
  the four lock-guarded fields as the other goroutines see them.
\<close>

datatype 'm event =
    Dialer_Dial string Header
  | Conn_WriteMessage Conn nat "nat list"
  | Conn_Close Conn
  | Conn_WriteJSON Conn 'm
  | Conn_ReadJSON Conn
  | Time_Sleep Duration
  | Fmt_Println string
  | Go goroutine
  | OnConnOpen
  | OnConnClose
  | OnConnError error
  | OnWriteError error
  | OnReadError error
  | OnConnMessage 'm
  | Set_started bool
  | Set_closing bool
  | Set_reconnecting bool
  | Set_conn "Conn option"

text \<open>
  The struct \<open>Websocket\<close>, with \<open>'m\<close> for the \<open>Message\<close> type declared outside these
  files. The mutex \<open>mu\<close> is not a field: each lock-guarded accessor is one atomic step.
  \<open>trace\<close> is not a field of the struct; it collects the events.
\<close>

record 'm Websocket =
  dialer :: Dialer
  handler :: TransportHandler
  conn :: "Conn option"
  endPoint :: string
  requestHeader :: Header
  done_ch :: "unit chan option"
  close :: "bool chan option"
  reconnect :: "bool chan option"
  send :: "'m chan option"
  connectionTries :: "64 word"
  started :: bool
  closing :: bool
  reconnecting :: bool
  trace :: "'m event list"

type_synonym ('m, 'a) outcome = "(stop \<times> 'm Websocket) + 'a"

datatype 'a ctl = Next 'a | Exit 'a

definition emit :: "'m event \<Rightarrow> 'm Websocket \<Rightarrow> 'm Websocket" where
  "emit e w = w\<lparr>trace := trace w @ [e]\<rparr>"

definition NewWebsocket :: "Dialer \<Rightarrow> TransportHandler \<Rightarrow> 'm Websocket" where
  "NewWebsocket d h =
     \<lparr>dialer = d, handler = h, conn = None, endPoint = [], requestHeader = [],
      done_ch = None, close = None, reconnect = None, send = None,
      connectionTries = 0, started = False, closing = False, reconnecting = False,
      trace = []\<rparr>"

subsection \<open>Lock-guarded accessors\<close>

definition setStarted :: "bool \<Rightarrow> 'm Websocket \<Rightarrow> 'm Websocket" where
  "setStarted b w = emit (Set_started b) (w\<lparr>started := b\<rparr>)"

definition isStarted :: "'m Websocket \<Rightarrow> bool" where
  "isStarted w = started w"

definition setClosing :: "bool \<Rightarrow> 'm Websocket \<Rightarrow> 'm Websocket" where
  "setClosing b w = emit (Set_closing b) (w\<lparr>closing := b\<rparr>)"

definition isClosing :: "'m Websocket \<Rightarrow> bool" where
  "isClosing w = closing w"


definition setReconnecting :: "bool \<Rightarrow> 'm Websocket \<Rightarrow> 'm Websocket" where
  "setReconnecting b w = emit (Set_reconnecting b) (w\<lparr>reconnecting := b\<rparr>)"

definition isReconnecting :: "'m Websocket \<Rightarrow> bool" where
  "isReconnecting w = reconnecting w"

definition sendReconnect :: "'m Websocket \<Rightarrow> ('m, 'm Websocket) outcome" where
  "sendReconnect w =
     (if reconnecting w \<or> closing w then Inr w
      else let w1 = emit (Set_reconnecting True) (w\<lparr>reconnecting := True\<rparr>)
           in (case chan_send (reconnect w1) True of
                 Inl s \<Rightarrow> Inl (s, w1)
               | Inr c \<Rightarrow> Inr (w1\<lparr>reconnect := c\<rparr>)))"

definition setConn :: "Conn option \<Rightarrow> 'm Websocket \<Rightarrow> 'm Websocket" where
  "setConn c w = emit (Set_conn c) (w\<lparr>conn := c\<rparr>)"

definition connIsSet :: "'m Websocket \<Rightarrow> bool" where
  "connIsSet w = (conn w \<noteq> None)"

definition connIsReady :: "'m Websocket \<Rightarrow> bool" where
  "connIsReady w = (started w \<and> \<not> closing w \<and> \<not> reconnecting w \<and> conn w \<noteq> None)"

subsection \<open>Startup, teardown, dial and close\<close>

definition startup :: "(URL \<Rightarrow> string) \<Rightarrow> 'm Websocket \<Rightarrow> URL \<Rightarrow> Header \<Rightarrow> 'm Websocket" where
  "startup str w ep rh =
     (let ep1 = ep\<lparr>Path := path_Join [Path ep, ''websocket'']\<rparr>;
          w1 = w\<lparr>endPoint := str ep1\<rparr>;
          w2 = w1\<lparr>requestHeader := rh\<rparr>;
          w3 = w2\<lparr>connectionTries := 0\<rparr>;
          w4 = w3\<lparr>done_ch := Some (make_chan 0)\<rparr>;
          w5 = w4\<lparr>close := Some (make_chan 0)\<rparr>;
          w6 = w5\<lparr>reconnect := Some (make_chan 0)\<rparr>;
          w7 = w6\<lparr>send := Some (make_chan messageQueueLength)\<rparr>;
          w8 = setReconnecting False w7;
          w9 = setClosing False w8;
          w10 = emit (Go ConnectionManager) w9;
          w11 = emit (Go Writer) w10;
          w12 = emit (Go Reader) w11
      in setStarted True w12)"

definition teardown :: "'m Websocket \<Rightarrow> ('m, 'm Websocket) outcome" where
  "teardown w =
     (case chan_close (done_ch w) of
        Inl s \<Rightarrow> Inl (s, w)
      | Inr d \<Rightarrow>
     (let w1 = w\<lparr>done_ch := d\<rparr> in
      case chan_close (close w1) of
        Inl s \<Rightarrow> Inl (s, w1)
      | Inr c \<Rightarrow>
     (let w2 = w1\<lparr>close := c\<rparr> in
      case chan_close (reconnect w2) of
        Inl s \<Rightarrow> Inl (s, w2)
      | Inr r \<Rightarrow>
     (let w3 = w2\<lparr>reconnect := r\<rparr> in
      case chan_close (send w3) of
        Inl s \<Rightarrow> Inl (s, w3)
      | Inr q \<Rightarrow>
     (let w4 = w3\<lparr>send := q\<rparr>;
          w5 = setStarted False w4;
          w6 = setReconnecting False w5
      in Inr (setClosing False w6))))))"

text \<open>\<open>dr\<close> is what the dialer answers: an error, or the new connection.\<close>

definition dial :: "'m Websocket \<Rightarrow> error + Conn \<Rightarrow> error option \<times> 'm Websocket" where
  "dial w dr =
     (let w1 = emit (Dialer_Dial (endPoint w) (requestHeader w)) w in
      case dr of
        Inl err \<Rightarrow> (Some err, w1)
      | Inr c \<Rightarrow>
          (let w2 = setConn (Some c) w1;
               w3 = setReconnecting False w2;
               w4 = emit OnConnOpen w3
           in (None, w4)))"

text \<open>
  \<open>wr\<close> is the result of writing the close message, \<open>cl\<close> the result of closing the
  connection (\<open>None\<close> for nil).
\<close>

definition closeConn :: "'m Websocket \<Rightarrow> error option \<Rightarrow> error option \<Rightarrow> 'm Websocket" where
  "closeConn w wr cl =
     (let w0 = emit (Fmt_Println ''closeConn'') w in
      if \<not> connIsSet w0 then w0
      else case conn w0 of
        None \<Rightarrow> w0
      | Some c \<Rightarrow>
          (let w1 = setClosing True w0;
               w2 = emit (Conn_WriteMessage c CloseMessage
                            (FormatCloseMessage CloseNormalClosure [])) w1;
               w3 = (if wr = None then emit (Time_Sleep (250 * Millisecond)) w2 else w2);
               w4 = emit (Conn_Close c) w3;
               w5 = (case cl of None \<Rightarrow> w4 | Some err \<Rightarrow> emit (OnConnError err) w4);
               w6 = setConn None w5;
               w7 = emit OnConnClose w6
           in setClosing False w7))"

text \<open>\<open>wr\<close> and \<open>rd\<close> are what the endpoint answers to the write and to the read.\<close>

definition writeToConn :: "'m Websocket \<Rightarrow> 'm \<Rightarrow> error option \<Rightarrow> error option \<times> 'm Websocket" where
  "writeToConn w msg wr =
     (if \<not> connIsReady w then (Some (ErrorString ''connection is not open''), w)
      else case conn w of
        None \<Rightarrow> (Some (ErrorString ''connection is not open''), w)
      | Some c \<Rightarrow> (wr, emit (Conn_WriteJSON c msg) w))"

definition readFromConn :: "'m Websocket \<Rightarrow> error + 'm \<Rightarrow> (error + 'm) \<times> 'm Websocket" where
  "readFromConn w rd =
     (if \<not> connIsReady w then (Inl (ErrorString ''connection is not open''), w)
      else case conn w of
        None \<Rightarrow> (Inl (ErrorString ''connection is not open''), w)
      | Some c \<Rightarrow> (rd, emit (Conn_ReadJSON c) w))"

subsection \<open>Public methods\<close>

definition Connect :: "(URL \<Rightarrow> string) \<Rightarrow> 'm Websocket \<Rightarrow> URL \<Rightarrow> Header \<Rightarrow> error option \<times> 'm Websocket" where
  "Connect str w ep rh =
     (if isStarted w then (Some (ErrorString ''connect was already called''), w)
      else (None, startup str w ep rh))"


definition IsConnected :: "'m Websocket \<Rightarrow> bool" where
  "IsConnected w = connIsReady w"

definition Send :: "'m Websocket \<Rightarrow> 'm \<Rightarrow> ('m, 'm Websocket) outcome" where
  "Send w msg =
     (case chan_send (send w) msg of
        Inl s \<Rightarrow> Inl (s, w)
      | Inr q \<Rightarrow> Inr (w\<lparr>send := q\<rparr>))"

subsection \<open>The three loops\<close>

text \<open>
  Each loop is given by its body, one iteration on the state it finds, and by a driver
  that runs one iteration per element of the list of what the environment answers.
  The states another goroutine may change while this one waits (in a select, in a
  blocking read) are reached by applying the part of the body after the wait to any
  state: \<open>cm_select\<close>, \<open>writer_select\<close>, \<open>writer_msg\<close>, \<open>reader_err\<close>.
\<close>

definition cm_dial_failed :: "'m Websocket \<Rightarrow> error \<Rightarrow> 'm Websocket" where
  "cm_dial_failed w err =
     (let w1 = emit (OnConnError err) w;
          w2 = setReconnecting True w1;
          delay = ReconnectAfter (handler w2) (connectionTries w2);
          w3 = w2\<lparr>connectionTries := connectionTries w2 + 1\<rparr>
      in emit (Time_Sleep delay) w3)"

definition cm_select ::
  "'m Websocket \<Rightarrow> pick \<Rightarrow> error option \<Rightarrow> error option \<Rightarrow> ('m, 'm Websocket ctl) outcome" where
  "cm_select w p wr cl =
     (case select_case p
             [(PickDone, chan_recv () (done_ch w) \<noteq> None),
              (PickClose, chan_recv False (close w) \<noteq> None),
              (PickReconnect, chan_recv False (reconnect w) \<noteq> None)] of
        Some PickDone \<Rightarrow>
          (case chan_recv () (done_ch w) of
             None \<Rightarrow> Inl (Blocks, w)
           | Some (v, d) \<Rightarrow> Inr (Exit (w\<lparr>done_ch := d\<rparr>)))
      | Some PickClose \<Rightarrow>
          (case chan_recv False (close w) of
             None \<Rightarrow> Inl (Blocks, w)
           | Some (v, c) \<Rightarrow>
               (case teardown (closeConn (w\<lparr>close := c\<rparr>) wr cl) of
                  Inl f \<Rightarrow> Inl f
                | Inr w1 \<Rightarrow> Inr (Next w1)))
      | Some PickReconnect \<Rightarrow>
          (case chan_recv False (reconnect w) of
             None \<Rightarrow> Inl (Blocks, w)
           | Some (v, r) \<Rightarrow> Inr (Next (closeConn (w\<lparr>reconnect := r\<rparr>) wr cl)))
      | _ \<Rightarrow> Inl (Blocks, w))"

record cm_env =
  cm_dial :: "error + Conn"
  cm_pick :: pick
  cm_write :: "error option"
  cm_close :: "error option"

definition connectionManager_iter :: "'m Websocket \<Rightarrow> cm_env \<Rightarrow> ('m, 'm Websocket ctl) outcome" where
  "connectionManager_iter w env =
     (case chan_recv () (done_ch w) of
        Some (v, d) \<Rightarrow> Inr (Exit (w\<lparr>done_ch := d\<rparr>))
      | None \<Rightarrow>
          if \<not> isClosing w \<and> \<not> connIsSet w then
            (case dial w (cm_dial env) of
               (Some err, w1) \<Rightarrow> Inr (Next (cm_dial_failed w1 err))
             | (None, w1) \<Rightarrow> cm_select w1 (cm_pick env) (cm_write env) (cm_close env))
          else cm_select w (cm_pick env) (cm_write env) (cm_close env))"

fun connectionManager :: "'m Websocket \<Rightarrow> cm_env list \<Rightarrow> ('m, 'm Websocket ctl) outcome" where
  "connectionManager w [] = Inr (Next w)"
| "connectionManager w (env # envs) =
     (case connectionManager_iter w env of
        Inr (Next w1) \<Rightarrow> connectionManager w1 envs
      | r \<Rightarrow> r)"

definition writer_msg :: "'m Websocket \<Rightarrow> 'm \<Rightarrow> error option \<Rightarrow> ('m, 'm Websocket ctl) outcome" where
  "writer_msg w msg wr =
     (if \<not> connIsReady w then Inr (Next (emit (Time_Sleep busyWait) w))
      else case writeToConn w msg wr of
        (Some err, w1) \<Rightarrow>
          (case sendReconnect (emit (OnWriteError err) w1) of
             Inl f \<Rightarrow> Inl f
           | Inr w2 \<Rightarrow> Inr (Next (emit (Time_Sleep busyWait) w2)))
      | (None, w1) \<Rightarrow> Inr (Next w1))"

text \<open>\<open>z\<close> is the zero \<open>Message\<close>, what a receive from the closed queue yields.\<close>

definition writer_select ::
  "'m \<Rightarrow> 'm Websocket \<Rightarrow> pick \<Rightarrow> error option \<Rightarrow> ('m, 'm Websocket ctl) outcome" where
  "writer_select z w p wr =
     (case select_case p
             [(PickDone, chan_recv () (done_ch w) \<noteq> None),
              (PickSend, chan_recv z (send w) \<noteq> None)] of
        Some PickDone \<Rightarrow>
          (case chan_recv () (done_ch w) of
             None \<Rightarrow> Inl (Blocks, w)
           | Some (v, d) \<Rightarrow> Inr (Exit (w\<lparr>done_ch := d\<rparr>)))
      | Some PickSend \<Rightarrow>
          (case chan_recv z (send w) of
             None \<Rightarrow> Inl (Blocks, w)
           | Some (msg, q) \<Rightarrow> writer_msg (w\<lparr>send := q\<rparr>) msg wr)
      | _ \<Rightarrow> Inl (Blocks, w))"

definition writer_iter ::
  "'m \<Rightarrow> 'm Websocket \<Rightarrow> pick \<times> error option \<Rightarrow> ('m, 'm Websocket ctl) outcome" where
  "writer_iter z w env =
     (case chan_recv () (done_ch w) of
        Some (v, d) \<Rightarrow> Inr (Exit (w\<lparr>done_ch := d\<rparr>))
      | None \<Rightarrow>
          if \<not> connIsReady w then Inr (Next (emit (Time_Sleep busyWait) w))
          else writer_select z w (fst env) (snd env))"

fun writer :: "'m \<Rightarrow> 'm Websocket \<Rightarrow> (pick \<times> error option) list \<Rightarrow> ('m, 'm Websocket ctl) outcome" where
  "writer z w [] = Inr (Next w)"
| "writer z w (env # envs) =
     (case writer_iter z w env of
        Inr (Next w1) \<Rightarrow> writer z w1 envs
      | r \<Rightarrow> r)"

definition reader_err :: "'m Websocket \<Rightarrow> error \<Rightarrow> ('m, 'm Websocket ctl) outcome" where
  "reader_err w err =
     (if \<not> IsCloseError err [1000] then
        (case sendReconnect (emit (OnReadError err) w) of
           Inl f \<Rightarrow> Inl f
         | Inr w1 \<Rightarrow> Inr (Next (emit (Time_Sleep busyWait) w1)))
      else Inr (Next (emit (Time_Sleep busyWait) w)))"

definition reader_iter :: "'m Websocket \<Rightarrow> error + 'm \<Rightarrow> ('m, 'm Websocket ctl) outcome" where
  "reader_iter w rd =
     (case chan_recv () (done_ch w) of
        Some (v, d) \<Rightarrow> Inr (Exit (w\<lparr>done_ch := d\<rparr>))
      | None \<Rightarrow>
          if \<not> connIsReady w then Inr (Next (emit (Time_Sleep busyWait) w))
          else (case readFromConn w rd of
                  (Inl err, w1) \<Rightarrow> reader_err w1 err
                | (Inr msg, w1) \<Rightarrow> Inr (Next (emit (OnConnMessage msg) w1))))"

fun reader :: "'m Websocket \<Rightarrow> (error + 'm) list \<Rightarrow> ('m, 'm Websocket ctl) outcome" where
  "reader w [] = Inr (Next w)"
| "reader w (rd # rds) =
     (case reader_iter w rd of
        Inr (Next w1) \<Rightarrow> reader w1 rds
      | r \<Rightarrow> r)"

subsection \<open>Concrete sessions\<close>

text \<open>
  Instances on which the theorems below are evaluated. \<open>url_text\<close> stands for the
  serialiser on plain URLs with a scheme, a host and a path.
\<close>

definition url_text :: "URL \<Rightarrow> string" where
  "url_text u = Scheme u @ ''://'' @ Host u @ Path u"

definition socketURL :: URL where
  "socketURL =
     \<lparr>Scheme = ''ws'', Opaque = [], User = None, Host = ''localhost:4000'',
      Path = ''/socket'', RawPath = [], OmitHost = False, ForceQuery = False,
      RawQuery = [], Fragment = [], RawFragment = []\<rparr>"

definition defaultHandler :: TransportHandler where
  "defaultHandler = \<lparr>ReconnectAfter = defaultReconnectAfterFunc\<rparr>"

definition newSession :: "string Websocket" where
  "newSession = NewWebsocket 1 defaultHandler"

definition startedSession :: "string Websocket" where
  "startedSession = snd (Connect url_text newSession socketURL [])"

definition liveSession :: "string Websocket" where
  "liveSession = snd (dial startedSession (Inr 7))"

text \<open>The session while \<open>closeConn\<close> runs: after its first step.\<close>

definition closingSession :: "string Websocket" where
  "closingSession = setClosing True liveSession"

text \<open>The same with one message waiting in the queue.\<close>

definition queuedSession :: "string Websocket" where
  "queuedSession = (case Send closingSession ''hello'' of Inl (s, w) \<Rightarrow> w | Inr w \<Rightarrow> w)"


text \<open>The state in which a loop step ends, whatever its outcome.\<close>

definition outcome_state :: "('m, 'm Websocket ctl) outcome \<Rightarrow> 'm Websocket" where
  "outcome_state r = (case r of Inl (s, w) \<Rightarrow> w | Inr (Next w) \<Rightarrow> w | Inr (Exit w) \<Rightarrow> w)"

subsection \<open>A session as a schedule of steps\<close>

text \<open>
  After \<open>Connect\<close> the three loops and the callers of \<open>Send\<close> and \<open>Disconnect\<close> run
  interleaved. A schedule lists whose step comes next, with what the environment answers
  in it: a whole iteration of a loop, or the part of one that follows a wait. \<open>session\<close>
  runs a schedule from a state.
\<close>

text \<open>The texts the dialer was called with, in order.\<close>

fun dial_targets :: "'m event list \<Rightarrow> string list" where
  "dial_targets [] = []"
| "dial_targets (Dialer_Dial t h # es) = t # dial_targets es"
| "dial_targets (e # es) = dial_targets es"

text \<open>
  From \<open>w\<close> to \<open>w1\<close> the endpoint text is unchanged, the trace only grows, and every
  call of the dialer added is to that text.
\<close>

definition keeps_target :: "'m Websocket \<Rightarrow> 'm Websocket \<Rightarrow> bool" where
  "keeps_target w w1 =
     (endPoint w1 = endPoint w \<and>
      take (length (trace w)) (trace w1) = trace w \<and>
      list_all (\<lambda>t. t = endPoint w) (dial_targets (drop (length (trace w)) (trace w1))))"




subsection \<open>Torn-down sessions\<close>





subsection \<open>The serialiser's opaque form\<close>




section \<open>Theorems\<close>

subsection \<open>The concrete sessions, evaluated\<close>

lemma startedSession_eq:
  "startedSession =
     \<lparr>dialer = 1, handler = defaultHandler, conn = None,
      endPoint = ''ws://localhost:4000/socket/websocket'', requestHeader = [],
      done_ch = Some (make_chan 0), close = Some (make_chan 0),
      reconnect = Some (make_chan 0), send = Some (make_chan 100),
      connectionTries = 0, started = True, closing = False, reconnecting = False,
      trace = [Set_reconnecting False, Set_closing False, Go ConnectionManager, Go Writer,
        Go Reader, Set_started True]\<rparr>"
  by (simp add: startedSession_def newSession_def NewWebsocket_def Connect_def isStarted_def
      startup_def emit_def setClosing_def setReconnecting_def setStarted_def Let_def
      url_text_def socketURL_def messageQueueLength_def
      path_Join_def path_Clean_def clean_elem_def)

lemma liveSession_eq:
  "liveSession =
     \<lparr>dialer = 1, handler = defaultHandler, conn = Some 7,
      endPoint = ''ws://localhost:4000/socket/websocket'', requestHeader = [],
      done_ch = Some (make_chan 0), close = Some (make_chan 0),
      reconnect = Some (make_chan 0), send = Some (make_chan 100),
      connectionTries = 0, started = True, closing = False, reconnecting = False,
      trace = [Set_reconnecting False, Set_closing False, Go ConnectionManager, Go Writer,
        Go Reader, Set_started True,
        Dialer_Dial ''ws://localhost:4000/socket/websocket'' [], Set_conn (Some 7),
        Set_reconnecting False, OnConnOpen]\<rparr>"
  by (simp add: liveSession_def startedSession_eq dial_def emit_def setConn_def
      setReconnecting_def Let_def)

lemma closingSession_eq:
  "closingSession = liveSession\<lparr>closing := True, trace := trace liveSession @ [Set_closing True]\<rparr>"
  by (simp add: closingSession_def setClosing_def emit_def)

lemma queuedSession_eq:
  "queuedSession =
     closingSession\<lparr>send := Some \<lparr>ch_cap = 100, ch_buf = [''hello''], ch_closed = False\<rparr>\<rparr>"
  by (simp add: queuedSession_def Send_def closingSession_eq liveSession_eq make_chan_def)




subsection \<open>Backoff\<close>

text \<open>
  C7. The default backoff policy depends on the attempt count alone: for the attempt
  indices 0 to 8 it returns 10, 50, 100, 150, 200, 250, 500, 1000 and 2000 milliseconds,
  and for every index of 9 or more it returns 5000 milliseconds. Durations are read in
  nanoseconds.
\<close>

theorem defaultReconnectAfterFunc_schedule:
  "sint (defaultReconnectAfterFunc 0) = 10 * 1000000 \<and>
   sint (defaultReconnectAfterFunc 1) = 50 * 1000000 \<and>
   sint (defaultReconnectAfterFunc 2) = 100 * 1000000 \<and>
   sint (defaultReconnectAfterFunc 3) = 150 * 1000000 \<and>
   sint (defaultReconnectAfterFunc 4) = 200 * 1000000 \<and>
   sint (defaultReconnectAfterFunc 5) = 250 * 1000000 \<and>
   sint (defaultReconnectAfterFunc 6) = 500 * 1000000 \<and>
   sint (defaultReconnectAfterFunc 7) = 1000 * 1000000 \<and>
   sint (defaultReconnectAfterFunc 8) = 2000 * 1000000 \<and>
   (\<forall>tries. 9 \<le> sint tries \<longrightarrow> sint (defaultReconnectAfterFunc tries) = 5000 * 1000000)"
  by (simp add: defaultReconnectAfterFunc_def schedule_def Millisecond_def)

theorem defaultReconnectAfterFunc_schedule_witness:
  "9 \<le> sint (12 :: 64 word) \<and> sint (defaultReconnectAfterFunc 12) = 5000 * 1000000"
  using defaultReconnectAfterFunc_schedule by simp

subsection \<open>Readiness\<close>

text \<open>
  C1. \<open>IsConnected\<close> is true exactly when, in the state it reads, the session is started,
  not closing, not reconnecting, and holds an endpoint handle. It is the predicate
  \<open>connIsReady\<close> by which the writer and the reader decide whether to use the endpoint:
  where it fails they idle for one polling interval, and a write or a read is refused.
\<close>

theorem IsConnected_readiness:
  "IsConnected w = (started w \<and> \<not> closing w \<and> \<not> reconnecting w \<and> conn w \<noteq> None) \<and>
   IsConnected w = connIsReady w \<and>
   (chan_recv () (done_ch w) = None \<longrightarrow>
      writer_iter z w env =
        (if IsConnected w then writer_select z w (fst env) (snd env)
         else Inr (Next (emit (Time_Sleep busyWait) w)))) \<and>
   (\<not> IsConnected w \<longrightarrow> writer_msg w msg wr = Inr (Next (emit (Time_Sleep busyWait) w))) \<and>
   (\<not> IsConnected w \<longrightarrow>
      writeToConn w msg wr = (Some (ErrorString ''connection is not open''), w)) \<and>
   (chan_recv () (done_ch w) = None \<longrightarrow> \<not> IsConnected w \<longrightarrow>
      reader_iter w rd = Inr (Next (emit (Time_Sleep busyWait) w))) \<and>
   (\<not> IsConnected w \<longrightarrow>
      readFromConn w rd = (Inl (ErrorString ''connection is not open''), w))"
  by (simp add: IsConnected_def connIsReady_def writer_iter_def writer_msg_def writeToConn_def
      reader_iter_def readFromConn_def)

theorem IsConnected_readiness_witness:
  "chan_recv () (done_ch newSession) = None \<and> \<not> IsConnected newSession \<and>
   writer_iter [] newSession (PickSend, None) = Inr (Next (emit (Time_Sleep busyWait) newSession)) \<and>
   writer_msg newSession ''hello'' None = Inr (Next (emit (Time_Sleep busyWait) newSession)) \<and>
   reader_iter newSession (Inr ''hello'') = Inr (Next (emit (Time_Sleep busyWait) newSession))"
  using IsConnected_readiness [of newSession "[]" "(PickSend, None)" "''hello''" None "Inr ''hello''"]
  by (simp add: newSession_def NewWebsocket_def)

subsection \<open>Raising the reconnect signal\<close>




subsection \<open>Graceful close\<close>

text \<open>
  C2, as the code has it. \<open>closeConn\<close>, run with an endpoint handle set, prints a line,
  then in this order: sets the closing flag; writes the close message with the normal
  closure code to the endpoint; waits 250 ms only if that write returned no error;
  closes the endpoint and reports an error of that close to the handler's \<open>OnConnError\<close>;
  sets the endpoint handle to nil; calls \<open>OnConnClose\<close> once; clears the closing flag.
\<close>

theorem closeConn_steps:
  "conn w = Some c \<Longrightarrow>
   closeConn w wr cl =
     w\<lparr>conn := None, closing := False,
       trace := trace w @
         [Fmt_Println ''closeConn'', Set_closing True, Conn_WriteMessage c 8 [3, 232]] @
         (if wr = None then [Time_Sleep (250 * Millisecond)] else []) @
         [Conn_Close c] @
         (case cl of None \<Rightarrow> [] | Some err \<Rightarrow> [OnConnError err]) @
         [Set_conn None, OnConnClose, Set_closing False]\<rparr>"
  by (simp add: closeConn_def connIsSet_def emit_def setClosing_def setConn_def Let_def
      CloseMessage_def CloseNormalClosure_def FormatCloseMessage_def split: option.splits)

theorem closeConn_steps_witness:
  "conn liveSession = Some 7 \<and>
   closeConn liveSession None (Some (OtherError ''use of closed network connection'')) =
     liveSession\<lparr>conn := None, closing := False,
       trace := trace liveSession @
         [Fmt_Println ''closeConn'', Set_closing True, Conn_WriteMessage 7 8 [3, 232],
          Time_Sleep (250 * Millisecond), Conn_Close 7,
          OnConnError (OtherError ''use of closed network connection''),
          Set_conn None, OnConnClose, Set_closing False]\<rparr>"
  using closeConn_steps [of liveSession 7 None "Some (OtherError ''use of closed network connection'')"]
  by (simp add: liveSession_eq)

text \<open>
  C2 as stated fails: when the write of the close message returns an error, \<open>closeConn\<close>
  goes on to close the endpoint without the 250 ms wait.
\<close>

theorem closeConn_no_wait_after_failed_notification:
  "conn liveSession = Some 7 \<and>
   trace (closeConn liveSession (Some (OtherError ''broken pipe'')) None) =
     trace liveSession @
       [Fmt_Println ''closeConn'', Set_closing True, Conn_WriteMessage 7 8 [3, 232],
        Conn_Close 7, Set_conn None, OnConnClose, Set_closing False] \<and>
   Time_Sleep (250 * Millisecond) \<notin>
     set (trace (closeConn liveSession (Some (OtherError ''broken pipe'')) None))"
  by (simp add: liveSession_eq closeConn_def connIsSet_def emit_def setClosing_def setConn_def
      Let_def CloseMessage_def CloseNormalClosure_def FormatCloseMessage_def)

subsection \<open>Connect\<close>



subsection \<open>Disconnect\<close>




subsection \<open>The reader's failed read\<close>

lemma IsCloseError_1000: "IsCloseError err [1000] = (\<exists>txt. err = CloseError 1000 txt)"
  by (cases err) simp_all

text \<open>
  C5. When the reader's read fails, the error is suppressed exactly when it is the close
  error with code 1000: then no callback is called and no reconnect signal raised, the
  loop only idles one polling interval. For any other error \<open>OnReadError\<close> is called with
  it and then the reconnect signal is raised through \<open>sendReconnect\<close>, which on a session
  neither reconnecting nor closing sets the reconnecting flag and sends one value on the
  reconnect channel.
\<close>

theorem reader_err_cases:
  "(IsCloseError err [1000] = (\<exists>txt. err = CloseError 1000 txt)) \<and>
   (IsCloseError err [1000] \<longrightarrow>
      reader_err w err = Inr (Next (w\<lparr>trace := trace w @ [Time_Sleep busyWait]\<rparr>))) \<and>
   (\<not> IsCloseError err [1000] \<longrightarrow>
      reader_err w err =
        (case sendReconnect (w\<lparr>trace := trace w @ [OnReadError err]\<rparr>) of
           Inl f \<Rightarrow> Inl f
         | Inr w1 \<Rightarrow> Inr (Next (w1\<lparr>trace := trace w1 @ [Time_Sleep busyWait]\<rparr>)))) \<and>
   (\<not> IsCloseError err [1000] \<and> \<not> reconnecting w \<and> \<not> closing w \<and>
    reconnect w = Some ch \<and> \<not> ch_closed ch \<and> ch_cap ch = 0 \<longrightarrow>
      reader_err w err =
        Inr (Next (w\<lparr>reconnect := Some (ch\<lparr>ch_buf := ch_buf ch @ [True]\<rparr>), reconnecting := True,
                     trace := trace w @ [OnReadError err, Set_reconnecting True,
                       Time_Sleep busyWait]\<rparr>))) \<and>
   (OnReadError err \<in> set (drop (length (trace w)) (trace (outcome_state (reader_err w err))))) =
     (\<not> IsCloseError err [1000]) \<and>
   (chan_recv () (done_ch w) = None \<and> connIsReady w \<and> conn w = Some c \<longrightarrow>
      reader_iter w (Inl err) = reader_err (w\<lparr>trace := trace w @ [Conn_ReadJSON c]\<rparr>) err)"
proof (intro conjI)
  show "IsCloseError err [1000] = (\<exists>txt. err = CloseError 1000 txt)"
    by (rule IsCloseError_1000)
  show "IsCloseError err [1000] \<longrightarrow>
      reader_err w err = Inr (Next (w\<lparr>trace := trace w @ [Time_Sleep busyWait]\<rparr>))"
    by (simp add: reader_err_def emit_def)
  show "\<not> IsCloseError err [1000] \<longrightarrow>
      reader_err w err =
        (case sendReconnect (w\<lparr>trace := trace w @ [OnReadError err]\<rparr>) of
           Inl f \<Rightarrow> Inl f
         | Inr w1 \<Rightarrow> Inr (Next (w1\<lparr>trace := trace w1 @ [Time_Sleep busyWait]\<rparr>)))"
    by (simp add: reader_err_def emit_def split: sum.splits)
  show "\<not> IsCloseError err [1000] \<and> \<not> reconnecting w \<and> \<not> closing w \<and>
    reconnect w = Some ch \<and> \<not> ch_closed ch \<and> ch_cap ch = 0 \<longrightarrow>
      reader_err w err =
        Inr (Next (w\<lparr>reconnect := Some (ch\<lparr>ch_buf := ch_buf ch @ [True]\<rparr>), reconnecting := True,
                     trace := trace w @ [OnReadError err, Set_reconnecting True,
                       Time_Sleep busyWait]\<rparr>))"
    by (simp add: reader_err_def emit_def sendReconnect_def Let_def)
  show "(OnReadError err \<in> set (drop (length (trace w)) (trace (outcome_state (reader_err w err))))) =
     (\<not> IsCloseError err [1000])"
    by (simp add: reader_err_def emit_def outcome_state_def sendReconnect_def Let_def
        split: sum.splits)
  show "chan_recv () (done_ch w) = None \<and> connIsReady w \<and> conn w = Some c \<longrightarrow>
      reader_iter w (Inl err) = reader_err (w\<lparr>trace := trace w @ [Conn_ReadJSON c]\<rparr>) err"
    by (simp add: reader_iter_def readFromConn_def emit_def)
qed

theorem reader_err_cases_witness:
  "IsCloseError (CloseError 1000 []) [1000] \<and>
   reader_err liveSession (CloseError 1000 []) =
     Inr (Next (liveSession\<lparr>trace := trace liveSession @ [Time_Sleep busyWait]\<rparr>)) \<and>
   \<not> IsCloseError (CloseError 1001 ''going away'') [1000] \<and>
   \<not> reconnecting liveSession \<and> \<not> closing liveSession \<and>
   reconnect liveSession = Some (make_chan 0) \<and>
   reader_err liveSession (CloseError 1001 ''going away'') =
     Inr (Next (liveSession\<lparr>reconnect := Some \<lparr>ch_cap = 0, ch_buf = [True], ch_closed = False\<rparr>,
                  reconnecting := True,
                  trace := trace liveSession @ [OnReadError (CloseError 1001 ''going away''),
                    Set_reconnecting True, Time_Sleep busyWait]\<rparr>)) \<and>
   chan_recv () (done_ch liveSession) = None \<and> connIsReady liveSession \<and>
   conn liveSession = Some 7 \<and>
   reader_iter liveSession (Inl (CloseError 1001 ''going away'')) =
     reader_err (liveSession\<lparr>trace := trace liveSession @ [Conn_ReadJSON 7]\<rparr>)
       (CloseError 1001 ''going away'')"
proof -
  let ?e = "CloseError 1001 ''going away''"
  note all = reader_err_cases [of ?e liveSession "make_chan 0" 7]
  have ready: "chan_recv () (done_ch liveSession) = None \<and> connIsReady liveSession \<and>
      conn liveSession = Some 7"
    by (simp add: liveSession_eq make_chan_def connIsReady_def)
  have flags: "\<not> reconnecting liveSession \<and> \<not> closing liveSession \<and>
      reconnect liveSession = Some (make_chan 0)"
    by (simp add: liveSession_eq)
  have normal: "reader_err liveSession (CloseError 1000 []) =
      Inr (Next (liveSession\<lparr>trace := trace liveSession @ [Time_Sleep busyWait]\<rparr>))"
    by (rule reader_err_cases [of "CloseError 1000 []" liveSession "make_chan 0" 7,
          THEN conjunct2, THEN conjunct1, THEN mp]) simp
  have other: "reader_err liveSession ?e =
      Inr (Next (liveSession\<lparr>reconnect :=
                    Some ((make_chan 0)\<lparr>ch_buf := ch_buf (make_chan 0) @ [True]\<rparr>),
                  reconnecting := True,
                  trace := trace liveSession @ [OnReadError ?e,
                    Set_reconnecting True, Time_Sleep busyWait]\<rparr>))"
    by (rule all [THEN conjunct2, THEN conjunct2, THEN conjunct2, THEN conjunct1, THEN mp])
      (simp add: flags make_chan_def)
  have iter: "reader_iter liveSession (Inl ?e) =
      reader_err (liveSession\<lparr>trace := trace liveSession @ [Conn_ReadJSON 7]\<rparr>) ?e"
    by (rule all [THEN conjunct2, THEN conjunct2, THEN conjunct2, THEN conjunct2,
          THEN conjunct2, THEN mp]) (rule ready)
  show ?thesis
    using ready flags normal iter by (simp add: other make_chan_def)
qed

subsection \<open>The writer's dequeued message\<close>

text \<open>
  C9. If the readiness predicate fails when the writer has taken a message from the
  queue, the message is dropped: the writer only idles one polling interval. Nothing is
  written to the endpoint, no handler callback is called, and the queue is left without
  the message.
\<close>

theorem writer_drops_when_not_ready:
  "(\<not> connIsReady w \<longrightarrow>
      writer_msg w msg wr = Inr (Next (w\<lparr>trace := trace w @ [Time_Sleep busyWait]\<rparr>))) \<and>
   (\<not> connIsReady w \<and> send w = Some q \<and> ch_buf q = msg # rest \<and>
    (p = PickSend \<or> chan_recv () (done_ch w) = None) \<longrightarrow>
      writer_select z w p wr =
        Inr (Next (w\<lparr>send := Some (q\<lparr>ch_buf := rest\<rparr>),
                     trace := trace w @ [Time_Sleep busyWait]\<rparr>)))"
  by (auto simp add: writer_msg_def writer_select_def select_case_def emit_def connIsReady_def)

theorem writer_drops_when_not_ready_witness:
  "\<not> connIsReady queuedSession \<and>
   send queuedSession = Some \<lparr>ch_cap = 100, ch_buf = [''hello''], ch_closed = False\<rparr> \<and>
   chan_recv () (done_ch queuedSession) = None \<and>
   writer_msg queuedSession ''hello'' None =
     Inr (Next (queuedSession\<lparr>trace := trace queuedSession @ [Time_Sleep busyWait]\<rparr>)) \<and>
   writer_select [] queuedSession PickSend None =
     Inr (Next (queuedSession\<lparr>send := Some \<lparr>ch_cap = 100, ch_buf = [], ch_closed = False\<rparr>,
                  trace := trace queuedSession @ [Time_Sleep busyWait]\<rparr>))"
  using writer_drops_when_not_ready [of queuedSession "''hello''" None
      "\<lparr>ch_cap = 100, ch_buf = [''hello''], ch_closed = False\<rparr>" "[]" PickSend "[]"]
  by (simp add: queuedSession_eq closingSession_eq liveSession_eq connIsReady_def make_chan_def)

subsection \<open>After teardown\<close>




subsection \<open>The path joined at startup\<close>















subsection \<open>What a session dials\<close>





lemma kt_sendReconnect:
  "keeps_target w (case sendReconnect w of Inl (s, w1) \<Rightarrow> w1 | Inr w1 \<Rightarrow> w1)"
  by (simp add: sendReconnect_def emit_def Let_def keeps_target_def split: sum.splits)






























end
